theory Spec2Isabelle
  imports Main
begin

section \<open>Python text\<close>

text \<open>
  The program is \<^verbatim>\<open>scripts/generate_feedback.py\<close>. A Python \<^verbatim>\<open>str\<close> is a sequence of
  Unicode code points, and \<^verbatim>\<open>len\<close> counts code points, so a text is a list of natural
  numbers here. The program's own literals are ASCII apart from two characters, which
  are written by their code points.
\<close>

type_synonym pystr = "nat list"

definition S :: "string \<Rightarrow> pystr" where
  "S cs = map of_char cs"

text \<open>
  White space as \<^verbatim>\<open>str.strip()\<close>, \<^verbatim>\<open>str.isspace()\<close> and the pattern \<^verbatim>\<open>\s\<close> of \<^verbatim>\<open>re\<close>
  on \<^verbatim>\<open>str\<close> see it (CPython's \<^verbatim>\<open>Py_UNICODE_ISSPACE\<close>).
\<close>

definition is_space :: "nat \<Rightarrow> bool" where
  "is_space c \<longleftrightarrow>
     (9 \<le> c \<and> c \<le> 13) \<or> (28 \<le> c \<and> c \<le> 32) \<or> c = 133 \<or> c = 160 \<or> c = 5760 \<or>
     (8192 \<le> c \<and> c \<le> 8202) \<or> c = 8232 \<or> c = 8233 \<or> c = 8239 \<or> c = 8287 \<or> c = 12288"

definition strip :: "pystr \<Rightarrow> pystr" where
  "strip t = rev (dropWhile is_space (rev (dropWhile is_space t)))"

text \<open>The line boundaries of \<^verbatim>\<open>str.splitlines()\<close>.\<close>

definition is_linebreak :: "nat \<Rightarrow> bool" where
  "is_linebreak c \<longleftrightarrow>
     c = 10 \<or> c = 13 \<or> c = 11 \<or> c = 12 \<or> c = 28 \<or> c = 29 \<or> c = 30 \<or> c = 133 \<or>
     c = 8232 \<or> c = 8233"

text \<open>\<^verbatim>\<open>str(n)\<close> of a non-negative integer: its decimal digits.\<close>

function str_nat :: "nat \<Rightarrow> pystr" where
  "str_nat n = (if n < 10 then [48 + n] else str_nat (n div 10) @ [48 + n mod 10])"
  by pat_completeness auto
termination
  by (relation "measure id") auto

declare str_nat.simps [simp del]

text \<open>\<^verbatim>\<open>sep.join(parts)\<close>.\<close>

fun join :: "pystr \<Rightarrow> pystr list \<Rightarrow> pystr" where
  "join sep [] = []"
| "join sep [x] = x"
| "join sep (x # y # ys) = x @ sep @ join sep (y # ys)"

section \<open>Content heuristics\<close>

text \<open>
  \<^verbatim>\<open>re.sub(r"#.*", "", text)\<close>: from each \<^verbatim>\<open>#\<close> up to, and not including, the next
  newline (the dot matches everything but \<^verbatim>\<open>\n\<close>).
\<close>

function drop_line_comments :: "pystr \<Rightarrow> pystr" where
  "drop_line_comments [] = []"
| "drop_line_comments (c # cs) =
     (if c = 35 then drop_line_comments (dropWhile (\<lambda>x. x \<noteq> 10) cs)
      else c # drop_line_comments cs)"
  by pat_completeness auto
termination
  by (relation "measure length") (auto simp: le_imp_less_Suc length_dropWhile_le)

text \<open>
  \<^verbatim>\<open>re.sub(opn + r"[\s\S]*?" + cls, "", text)\<close> for literal delimiters: scanning from the
  left, an opening delimiter that is followed somewhere by a closing one is removed
  together with everything up to the end of the first closing one; an opening delimiter
  that is never closed stays.
\<close>

fun after_first :: "pystr \<Rightarrow> pystr \<Rightarrow> pystr option" where
  "after_first d [] = (if d = [] then Some [] else None)"
| "after_first d (c # cs) =
     (if take (length d) (c # cs) = d then Some (drop (length d) (c # cs))
      else after_first d cs)"

lemma after_first_length: "after_first d t = Some r \<Longrightarrow> length r \<le> length t"
  by (induction t) (auto split: if_splits)

function remove_delimited :: "pystr \<Rightarrow> pystr \<Rightarrow> pystr \<Rightarrow> pystr" where
  "remove_delimited opn cls [] = []"
| "remove_delimited opn cls (c # cs) =
     (if opn \<noteq> [] \<and> take (length opn) (c # cs) = opn then
        (case after_first cls (drop (length opn) (c # cs)) of
           Some rest \<Rightarrow> remove_delimited opn cls rest
         | None \<Rightarrow> c # remove_delimited opn cls cs)
      else c # remove_delimited opn cls cs)"
  by pat_completeness auto
termination
  apply (relation "measure (\<lambda>(opn, cls, t). length t)")
     apply simp_all
  apply (auto dest!: after_first_length)
  subgoal for opn c cs r by (cases opn) auto
  done

definition strip_comments_and_ws_py :: "pystr \<Rightarrow> pystr" where
  "strip_comments_and_ws_py text =
     (let text = drop_line_comments text;
          text = remove_delimited [34, 34, 34] [34, 34, 34] text;
          text = remove_delimited [39, 39, 39] [39, 39, 39] text
      in filter (\<lambda>c. \<not> is_space c) text)"

definition md_markup :: "nat set" where
  "md_markup = {35, 62, 42, 96, 95, 126, 45}"

definition strip_md :: "pystr \<Rightarrow> pystr" where
  "strip_md text =
     (let text = remove_delimited [96, 96, 96] [96, 96, 96] text;
          text = remove_delimited [60, 33, 45, 45] [45, 45, 62] text;
          text = filter (\<lambda>c. c \<notin> md_markup) text
      in filter (\<lambda>c. \<not> is_space c) text)"

section \<open>The environment of one invocation\<close>

text \<open>
  What the program and the commands it runs can change: the directory \<^verbatim>\<open>.meta-feedback\<close>,
  the entry \<^verbatim>\<open>state.json\<close> in it, and the files of the working directory. The entry
  \<^verbatim>\<open>state.json\<close> is kept as what reading it gives: nothing there (\<open>Missing\<close>), a
  directory of that name (\<open>IsDirectory\<close>), a file whose text cannot be read, decoded or
  parsed (\<open>Malformed\<close>), a JSON value that is not an object (\<open>NonObject\<close>), or an object
  with its fields.

  A field of the object is any JSON value. \<open>Null\<close> is also Python's \<^verbatim>\<open>None\<close>, and \<open>Str\<close> a
  string. For a number, a boolean, an array or an object, \<open>Other\<close> keeps the three things
  the program does with the value: whether Python holds it true, how an f-string renders
  it, and what \<^verbatim>\<open>[:7]\<close> of it renders as, or the error that the slice raises. Such a value
  is never equal to a string.
\<close>

datatype error =
    CalledProcessError pystr
  | IndexError
  | FileExistsError
  | FileNotFoundError
  | NotADirectoryError
  | IsADirectoryError
  | OSError
  | UnicodeEncodeError
  | ValueError
  | AttributeError
  | TypeError
  | KeyboardInterrupt

datatype jvalue = Null | Str pystr | Other bool pystr "error + pystr"

datatype entry = NoEntry | Directory | RegularFile

datatype stored = Missing | IsDirectory | Malformed | NonObject | Object "pystr \<rightharpoonup> jvalue"

record disk =
  state_dir :: entry
  state_file :: stored
  files :: "pystr \<rightharpoonup> pystr"

text \<open>
  \<open>trace\<close> lists what the current invocation has done so far, in order: the commands it
  ran, the requests it sent, the directories and files it wrote, the lines it printed.
\<close>

datatype event =
    Shell pystr
  | CallGpt pystr pystr
  | MkDir pystr
  | WriteFile pystr pystr
  | WriteCheckpoint pystr
  | Print pystr

record sys = disk +
  trace :: "event list"

text \<open>
  Everything the program asks of the outside is a field of \<open>world\<close>.

  \<^item> \<open>shell\<close>: a command line run with \<^verbatim>\<open>shell=True\<close>. Its answer is the output, or \<open>None\<close>
    when \<^verbatim>\<open>subprocess.check_output\<close> raises, together with the directory, state file and
    files that it leaves behind. Both may depend on the state in which the command is
    run, which holds the events so far: the same command can answer differently later in
    a run, and a command can change or remove anything.
  \<^item> \<open>read_text\<close>: the text of a submitted file, \<open>None\<close> when the read raises.
  \<^item> \<open>tests_dir\<close>: the names in \<^verbatim>\<open>tests/\<close>, \<open>None\<close> when there is no such entry.
  \<^item> \<open>utcnow\<close>: the UTC time as \<^verbatim>\<open>strftime("%Y%m%d_%H%M")\<close> formats it.
  \<^item> \<open>chat\<close>: what \<^verbatim>\<open>call_gpt\<close> does before it strips the content: it gets a message
    content, or raises an exception \<^verbatim>\<open>e\<close> of class \<^verbatim>\<open>Exception\<close> with the given \<^verbatim>\<open>str(e)\<close>,
    or raises one outside \<^verbatim>\<open>Exception\<close> (\<^verbatim>\<open>KeyboardInterrupt\<close>, \<^verbatim>\<open>SystemExit\<close>).
  \<^item> \<open>denied\<close>: the paths that the operating system refuses to create or to open for
    writing.
\<close>

datatype reply = Content pystr | Raises pystr | Interrupts

record world =
  shell :: "pystr \<Rightarrow> sys \<Rightarrow> pystr option \<times> disk"
  read_text :: "pystr \<Rightarrow> pystr option"
  tests_dir :: "pystr list option"
  utcnow :: pystr
  chat :: "pystr \<Rightarrow> pystr \<Rightarrow> reply"
  denied :: "pystr \<Rightarrow> bool"

definition emit :: "event \<Rightarrow> sys \<Rightarrow> sys" where
  "emit e s = s\<lparr>trace := trace s @ [e]\<rparr>"

definition on_disk :: "sys \<Rightarrow> disk" where
  "on_disk s = \<lparr>state_dir = state_dir s, state_file = state_file s, files = files s\<rparr>"

definition put_disk :: "disk \<Rightarrow> sys \<Rightarrow> sys" where
  "put_disk d s = s\<lparr>state_dir := state_dir d, state_file := state_file d, files := files d\<rparr>"

definition STATE_DIR :: pystr where
  "STATE_DIR = S ''.meta-feedback''"

definition STATE_FILE :: pystr where
  "STATE_FILE = S ''.meta-feedback/state.json''"

definition PSEUDO_FILE :: pystr where
  "PSEUDO_FILE = S ''PSEUDOCODE.md''"

definition CODE_FILE :: pystr where
  "CODE_FILE = S ''algorithm.py''"

text \<open>
  The module-level statement \<^verbatim>\<open>STATE_DIR.mkdir(exist_ok=True)\<close>. A directory that is
  created is empty.
\<close>

definition module_init :: "world \<Rightarrow> sys \<Rightarrow> (error + unit) \<times> sys" where
  "module_init w s =
     (case state_dir s of
        Directory \<Rightarrow> (Inr (), s)
      | RegularFile \<Rightarrow> (Inl FileExistsError, s)
      | NoEntry \<Rightarrow>
          if denied w STATE_DIR then (Inl OSError, s)
          else (Inr (), emit (MkDir STATE_DIR) (s\<lparr>state_dir := Directory, state_file := Missing\<rparr>)))"

section \<open>Shell helpers\<close>

text \<open>
  \<^verbatim>\<open>sh\<close>: the command runs, and changes what it changes, whether or not it ends in an
  error.
\<close>

definition sh :: "world \<Rightarrow> pystr \<Rightarrow> sys \<Rightarrow> (error + pystr) \<times> sys" where
  "sh w cmd s =
     (case shell w cmd s of
        (None, d) \<Rightarrow> (Inl (CalledProcessError cmd), emit (Shell cmd) (put_disk d s))
      | (Some out, d) \<Rightarrow> (Inr (strip out), emit (Shell cmd) (put_disk d s)))"

definition get_head :: "world \<Rightarrow> sys \<Rightarrow> (error + pystr) \<times> sys" where
  "get_head w s = sh w (S ''git rev-parse HEAD'') s"

text \<open>\<^verbatim>\<open>t.splitlines()[0]\<close>: the empty text has no line.\<close>

definition first_line :: "pystr \<Rightarrow> error + pystr" where
  "first_line t = (if t = [] then Inl IndexError else Inr (takeWhile (\<lambda>c. \<not> is_linebreak c) t))"

definition get_initial_commit :: "world \<Rightarrow> sys \<Rightarrow> (error + pystr) \<times> sys" where
  "get_initial_commit w s =
     (case sh w (S ''git rev-list --max-parents=0 HEAD'') s of
        (Inl e, s') \<Rightarrow> (Inl e, s')
      | (Inr out, s') \<Rightarrow> (first_line out, s'))"

text \<open>
  \<^verbatim>\<open>STATE_FILE.exists()\<close>: there is an entry \<^verbatim>\<open>state.json\<close>, of any kind, in a directory
  \<^verbatim>\<open>.meta-feedback\<close>.
\<close>

definition state_file_exists :: "sys \<Rightarrow> bool" where
  "state_file_exists s \<longleftrightarrow>
     (case state_dir s of
        Directory \<Rightarrow> (case state_file s of Missing \<Rightarrow> False | _ \<Rightarrow> True)
      | _ \<Rightarrow> False)"

text \<open>
  The body of the \<^verbatim>\<open>try\<close> in \<^verbatim>\<open>get_last_processed\<close>:
  \<^verbatim>\<open>json.loads(STATE_FILE.read_text()).get("last_processed")\<close>. \<^verbatim>\<open>dict.get\<close> gives \<^verbatim>\<open>None\<close>
  for a field that is not there.
\<close>

definition load_last_processed :: "sys \<Rightarrow> error + jvalue" where
  "load_last_processed s =
     (case state_file s of
        Missing \<Rightarrow> Inl FileNotFoundError
      | IsDirectory \<Rightarrow> Inl IsADirectoryError
      | Malformed \<Rightarrow> Inl ValueError
      | NonObject \<Rightarrow> Inl AttributeError
      | Object doc \<Rightarrow>
          (case doc (S ''last_processed'') of None \<Rightarrow> Inr Null | Some v \<Rightarrow> Inr v))"

definition get_last_processed :: "sys \<Rightarrow> error + jvalue" where
  "get_last_processed s =
     (if state_file_exists s then
        (case load_last_processed s of Inl e \<Rightarrow> Inr Null | Inr v \<Rightarrow> Inr v)
      else Inr Null)"

text \<open>
  \<^verbatim>\<open>STATE_FILE.write_text(json.dumps({"last_processed": sha}, indent=2), encoding="utf-8")\<close>.
  The file is opened for writing, which raises when the directory is not there, when
  \<^verbatim>\<open>state.json\<close> is a directory, and when the operating system refuses. \<^verbatim>\<open>json.dumps\<close>
  gives ASCII text, which always encodes. Afterwards the file holds an object with the one
  field.
\<close>

definition set_last_processed :: "world \<Rightarrow> pystr \<Rightarrow> sys \<Rightarrow> (error + unit) \<times> sys" where
  "set_last_processed w sha s =
     (case state_dir s of
        NoEntry \<Rightarrow> (Inl FileNotFoundError, s)
      | RegularFile \<Rightarrow> (Inl NotADirectoryError, s)
      | Directory \<Rightarrow>
          (case state_file s of
             IsDirectory \<Rightarrow> (Inl IsADirectoryError, s)
           | _ \<Rightarrow>
               if denied w STATE_FILE then (Inl OSError, s)
               else (Inr (), emit (WriteCheckpoint sha)
                               (s\<lparr>state_file := Object [S ''last_processed'' \<mapsto> Str sha]\<rparr>))))"

text \<open>
  What Python does with the value of \<^verbatim>\<open>last\<close>: its truth in \<^verbatim>\<open>x or y\<close>, its text in an
  f-string, and \<^verbatim>\<open>last[:7]\<close> as \<^verbatim>\<open>str.format\<close> renders it.
\<close>

fun truthy :: "jvalue \<Rightarrow> bool" where
  "truthy Null = False"
| "truthy (Str t) = (t \<noteq> [])"
| "truthy (Other b t r) = b"

fun rendered :: "jvalue \<Rightarrow> pystr" where
  "rendered Null = S ''None''"
| "rendered (Str t) = t"
| "rendered (Other b t r) = t"

fun slice7 :: "jvalue \<Rightarrow> error + pystr" where
  "slice7 Null = Inl TypeError"
| "slice7 (Str t) = Inr (take 7 t)"
| "slice7 (Other b t r) = r"

record changeset =
  name_status :: pystr
  shortstat :: pystr
  patch :: pystr
  tree :: pystr
  logs :: pystr

text \<open>\<^verbatim>\<open>try: x = sh(...)\<close> \<^verbatim>\<open>except Exception: x = ""\<close>.\<close>

definition recover :: "(error + pystr) \<times> sys \<Rightarrow> pystr \<times> sys" where
  "recover r = (case r of (Inl e, s) \<Rightarrow> ([], s) | (Inr t, s) \<Rightarrow> (t, s))"

definition git_diff :: "world \<Rightarrow> jvalue \<Rightarrow> pystr \<Rightarrow> sys \<Rightarrow> (error + changeset) \<times> sys" where
  "git_diff w base head s =
     (case (if base \<noteq> Str head
            then sh w (S ''git diff --name-status '' @ rendered base @ S '' '' @ head) s
            else (Inr [], s)) of
        (Inl e, s1) \<Rightarrow> (Inl e, s1)
      | (Inr ns, s1) \<Rightarrow>
     (case (if base \<noteq> Str head
            then sh w (S ''git diff --shortstat '' @ rendered base @ S '' '' @ head) s1
            else (Inr [], s1)) of
        (Inl e, s2) \<Rightarrow> (Inl e, s2)
      | (Inr st, s2) \<Rightarrow>
     (case (if base \<noteq> Str head
            then sh w (S ''git diff --unified=0 '' @ rendered base @ S '' '' @ head) s2
            else (Inr [], s2)) of
        (Inl e, s3) \<Rightarrow> (Inl e, s3)
      | (Inr pa, s3) \<Rightarrow>
          (let (tr, s4) = recover (sh w (S ''ls -R | head -n 400'') s3);
               (lg, s5) =
                 recover (sh w (S ''git log -n 10 --pretty=format:'' @ [39] @ S ''%h %ad %s'' @ [39] @
                                S '' --date=short'') s4)
           in (Inr \<lparr>name_status = ns, shortstat = st, patch = pa, tree = tr, logs = lg\<rparr>, s5)))))"

definition now_stamp :: "world \<Rightarrow> pystr" where
  "now_stamp w = utcnow w"

text \<open>
  \<^verbatim>\<open>pathlib.Path(out).write_text(md, encoding="utf-8")\<close>: the file is opened for writing,
  which creates it or empties it, and then the text is encoded and written. UTF-8 encodes
  every text but one that holds a surrogate code point; then the write raises and the file
  stays empty.
\<close>

definition is_surrogate :: "nat \<Rightarrow> bool" where
  "is_surrogate c \<longleftrightarrow> 55296 \<le> c \<and> c \<le> 57343"

definition write_feedback :: "world \<Rightarrow> pystr \<Rightarrow> sys \<Rightarrow> (error + pystr) \<times> sys" where
  "write_feedback w md s =
     (let out = S ''Meta-Feedback_'' @ now_stamp w @ S ''.md''
      in if denied w out then (Inl OSError, s)
         else if list_ex is_surrogate md
         then (Inl UnicodeEncodeError, emit (WriteFile out []) (s\<lparr>files := (files s)(out \<mapsto> [])\<rparr>))
         else (Inr out, emit (WriteFile out md) (s\<lparr>files := (files s)(out \<mapsto> md)\<rparr>)))"

section \<open>Content status\<close>

definition read_text_safe :: "world \<Rightarrow> pystr \<Rightarrow> pystr" where
  "read_text_safe w p = (case read_text w p of None \<Rightarrow> [] | Some t \<Rightarrow> t)"

record content_status =
  code_len :: nat
  pseudo_len :: nat
  has_code :: bool
  has_pseudo :: bool
  tests_exist :: bool

text \<open>A name that \<^verbatim>\<open>TEST_DIR.glob("test_*.py")\<close> yields.\<close>

definition is_test_file :: "pystr \<Rightarrow> bool" where
  "is_test_file n \<longleftrightarrow>
     8 \<le> length n \<and> take 5 n = S ''test_'' \<and> drop (length n - 3) n = S ''.py''"

definition detect_content_status :: "world \<Rightarrow> content_status" where
  "detect_content_status w =
     (let code_text = read_text_safe w CODE_FILE;
          pseudo_text = read_text_safe w PSEUDO_FILE;
          code_core_len =
            (if code_text \<noteq> [] then length (strip_comments_and_ws_py code_text) else 0);
          pseudo_core_len = (if pseudo_text \<noteq> [] then length (strip_md pseudo_text) else 0);
          tests = (case tests_dir w of None \<Rightarrow> False | Some names \<Rightarrow> list_ex is_test_file names)
      in \<lparr>code_len = code_core_len, pseudo_len = pseudo_core_len,
          has_code = (80 \<le> code_core_len), has_pseudo = (120 \<le> pseudo_core_len),
          tests_exist = tests\<rparr>)"

definition details :: "content_status \<Rightarrow> pystr list" where
  "details status =
     (if has_code status then
        [S ''Detected non-trivial code in algorithm.py ('' @ [8776] @ str_nat (code_len status) @
         S '' chars after stripping).'']
      else []) @
     (if has_pseudo status then
        [S ''Detected non-trivial pseudocode in PSEUDOCODE.md ('' @ [8776] @
         str_nat (pseudo_len status) @ S '' chars after stripping).'']
      else []) @
     (if \<not> has_code status \<and> \<not> has_pseudo status then
        [S ''No substantial code or pseudocode detected.'']
      else []) @
     (if \<not> tests_exist status then
        [S ''No test files found under '' @ [39] @ S ''tests/'' @ [39] @ S ''.'']
      else [])"

definition describe_content_status :: "content_status \<Rightarrow> pystr" where
  "describe_content_status status =
     (if details status \<noteq> [] then join (S '' '') (details status)
      else S ''Content status unclear.'')"

section \<open>The generation service\<close>

text \<open>
  \<^verbatim>\<open>call_gpt\<close>: the outcome of the call, with the content stripped when there is one.
\<close>

definition call_gpt :: "world \<Rightarrow> pystr \<Rightarrow> pystr \<Rightarrow> sys \<Rightarrow> reply \<times> sys" where
  "call_gpt w system_prompt user_prompt s =
     (case chat w system_prompt user_prompt of
        Content c \<Rightarrow> (Content (strip c), emit (CallGpt system_prompt user_prompt) s)
      | Raises m \<Rightarrow> (Raises m, emit (CallGpt system_prompt user_prompt) s)
      | Interrupts \<Rightarrow> (Interrupts, emit (CallGpt system_prompt user_prompt) s))"

definition SYSTEM_PROMPT :: pystr where
  "SYSTEM_PROMPT =
     S ''You are a teaching assistant generating process-oriented meta-feedback for a university algorithms assignment.\<newline>'' @
     S ''Students may submit code (algorithm.py) OR pseudocode (PSEUDOCODE.md). English only.\<newline>'' @
     S ''Focus on actionable guidance about planning, implementation/pseudocode quality, validation (tests or worked examples), and reflection (complexity, invariants/exchange-argument, counterexamples).\<newline>'' @
     S ''If the repository is minimal or empty, you should still provide constructive, step-by-step guidance tailored to the detected state'' @
     [8212] @
     S ''do not assume a specific algorithm family (e.g., not necessarily greedy).\<newline>'' @
     S ''Be concise and structured; use Markdown with short bullets where helpful. Do NOT include boilerplate or generic platitudes.\<newline>''"

text \<open>
  \<^verbatim>\<open>USER_PROMPT_TEMPLATE.format(...)\<close>: the template has seven replacement fields and no
  other brace, so the result is the template's text with each field's value in its place.
  The part before the patch and the part after it are named, for the statements about
  what surrounds the patch.
\<close>

definition prompt_before_patch :: "pystr \<Rightarrow> pystr \<Rightarrow> pystr \<Rightarrow> pystr \<Rightarrow> pystr \<Rightarrow> pystr" where
  "prompt_before_patch base head logs' tree' name_status' =
     S ''Generate process-focused meta-feedback for the latest change ('' @ base @ S ''..'' @
     head @ S '').\<newline>'' @ S ''\<newline>'' @ S ''[Recent commits]\<newline>'' @ logs' @
     S ''\<newline>'' @ S ''\<newline>'' @ S ''[Project tree (truncated)]\<newline>'' @ tree' @
     S ''\<newline>'' @ S ''\<newline>'' @ S ''[Changed files (name-status)]\<newline>'' @
     name_status' @ S ''\<newline>'' @ S ''\<newline>'' @
     S ''[Diff (unified; may be truncated)]\<newline>'' @ S ''```diff\<newline>''"

definition prompt_after_patch :: "pystr \<Rightarrow> pystr" where
  "prompt_after_patch content_summary =
     S ''\<newline>'' @ S ''```\<newline>'' @ S ''\<newline>'' @
     S ''[Repository content summary]\<newline>'' @ content_summary @ S ''\<newline>'' @
     S ''\<newline>'' @ S ''Use this structure:\<newline>'' @ S ''\<newline>'' @
     S ''Meta-Feedback (Process-Oriented)\<newline>'' @ S ''Signals Observed\<newline>'' @
     S ''\<newline>'' @ S ''(What changed? Small-step commits? Clear messages?)\<newline>'' @
     S ''\<newline>'' @ S ''(Any structure/API changes? Added/removed helpers?)\<newline>'' @
     S ''\<newline>'' @ S ''Actionable Suggestions\<newline>'' @ S ''\<newline>'' @
     S ''Planning:\<newline>'' @ S ''\<newline>'' @
     S ''Implementation / Pseudocode quality:\<newline>'' @ S ''\<newline>'' @
     S ''Validation:\<newline>'' @ S ''\<newline>'' @ S ''Reflection:\<newline>'' @
     S ''\<newline>'' @
     S ''Technique-Specific Considerations (only if applicable)\<newline>'' @
     S ''\<newline>'' @
     S ''Clearly state the chosen approach/criterion and why it fits the problem.\<newline>'' @
     S ''\<newline>'' @
     S ''Mark an invariant OR outline an exchange/correctness sketch appropriate for the chosen technique.\<newline>'' @
     S ''\<newline>'' @
     S ''Compare to a naive/baseline approach (correctness + complexity).\<newline>'' @
     S ''\<newline>'' @ S ''Walk through 2 tiny examples end-to-end.\<newline>'' @
     S ''\<newline>'' @
     S ''Consider tricky or near-counterexample cases and how to detect/handle them.\<newline>''"

definition USER_PROMPT_TEMPLATE_format ::
  "pystr \<Rightarrow> pystr \<Rightarrow> pystr \<Rightarrow> pystr \<Rightarrow> pystr \<Rightarrow> pystr \<Rightarrow> pystr \<Rightarrow> pystr" where
  "USER_PROMPT_TEMPLATE_format base head logs' tree' name_status' patch' content_summary =
     prompt_before_patch base head logs' tree' name_status' @ patch' @
     prompt_after_patch content_summary"

text \<open>\<^verbatim>\<open>x or "(none)"\<close> on a text.\<close>

definition or_none :: "pystr \<Rightarrow> pystr" where
  "or_none t = (if t \<noteq> [] then t else S ''(none)'')"

text \<open>
  The user prompt of \<^verbatim>\<open>main\<close>, with \<^verbatim>\<open>d["patch"][:20000]\<close> for a patch that is not
  empty. \<^verbatim>\<open>last[:7]\<close> is the first argument evaluated, and the only one that can raise.
\<close>

definition user_prompt_of :: "jvalue \<Rightarrow> pystr \<Rightarrow> changeset \<Rightarrow> pystr \<Rightarrow> error + pystr" where
  "user_prompt_of last' head d content_summary =
     (case slice7 last' of
        Inl e \<Rightarrow> Inl e
      | Inr base \<Rightarrow>
          Inr (USER_PROMPT_TEMPLATE_format base (take 7 head) (or_none (logs d)) (or_none (tree d))
                 (or_none (name_status d))
                 (if patch d \<noteq> [] then take 20000 (patch d) else S ''(none)'')
                 content_summary))"

section \<open>The fallback document\<close>

text \<open>
  \<^verbatim>\<open>textwrap.dedent\<close>, as CPython up to 3.13 defines it: lines are separated by \<^verbatim>\<open>\n\<close>; a line of
  spaces and tabs only becomes empty; the margin is the longest run of spaces and tabs
  that starts every other non-empty line; a margin that is not empty is removed from the
  start of each line that has it.
\<close>

fun split_nl :: "pystr \<Rightarrow> pystr list" where
  "split_nl [] = [[]]"
| "split_nl (c # cs) =
     (if c = 10 then [] # split_nl cs
      else (case split_nl cs of [] \<Rightarrow> [[c]] | l # ls \<Rightarrow> (c # l) # ls))"

definition is_blank :: "nat \<Rightarrow> bool" where
  "is_blank c \<longleftrightarrow> c = 32 \<or> c = 9"

definition blank_line :: "pystr \<Rightarrow> pystr" where
  "blank_line l = (if list_all is_blank l then [] else l)"

text \<open>
  The loop's last branch: cut the margin at the first position where it and the indent
  differ.
\<close>

fun cut_margin :: "pystr \<Rightarrow> pystr \<Rightarrow> pystr" where
  "cut_margin (x # xs) (y # ys) = (if x \<noteq> y then [] else x # cut_margin xs ys)"
| "cut_margin xs [] = xs"
| "cut_margin [] ys = []"

fun next_margin :: "pystr option \<Rightarrow> pystr \<Rightarrow> pystr option" where
  "next_margin None indent = Some indent"
| "next_margin (Some margin) indent =
     (if take (length margin) indent = margin then Some margin
      else if take (length indent) margin = indent then Some indent
      else Some (cut_margin margin indent))"

definition dedent :: "pystr \<Rightarrow> pystr" where
  "dedent text =
     (let lines = map blank_line (split_nl text);
          indents = map (takeWhile is_blank) (filter (\<lambda>l. l \<noteq> []) lines);
          margin = foldl next_margin None indents
      in case margin of
           None \<Rightarrow> join [10] lines
         | Some m \<Rightarrow>
             if m \<noteq> [] then
               join [10] (map (\<lambda>l. if take (length m) l = m then drop (length m) l else l) lines)
             else join [10] lines)"

text \<open>The f-string that \<^verbatim>\<open>main\<close> hands to \<^verbatim>\<open>textwrap.dedent\<close>, and the fallback text.\<close>

definition fallback_template :: "pystr \<Rightarrow> pystr" where
  "fallback_template e =
     S ''            # Meta-Feedback (Process-Oriented)\<newline>'' @
     S ''            The feedback service encountered an error: '' @ e @ S ''\<newline>'' @
     S ''            Please retry the instructor-triggered workflow.\<newline>'' @
     S ''            ''"

definition fallback_md :: "pystr \<Rightarrow> pystr" where
  "fallback_md e = dedent (fallback_template e)"

section \<open>The entry point\<close>

definition print :: "pystr \<Rightarrow> sys \<Rightarrow> sys" where
  "print line s = emit (Print line) s"

text \<open>
  \<^verbatim>\<open>get_last_processed() or get_initial_commit()\<close>: the root is asked for only when the
  checkpoint is not held true, as \<^verbatim>\<open>None\<close> and the empty text are not.
\<close>

definition last_or_initial :: "world \<Rightarrow> sys \<Rightarrow> (error + jvalue) \<times> sys" where
  "last_or_initial w s =
     (case get_last_processed s of
        Inl e \<Rightarrow> (Inl e, s)
      | Inr v \<Rightarrow>
          if truthy v then (Inr v, s)
          else (case get_initial_commit w s of
                  (Inl e, s') \<Rightarrow> (Inl e, s')
                | (Inr root, s') \<Rightarrow> (Inr (Str root), s')))"

text \<open>
  \<^verbatim>\<open>main\<close> in three parts. Lines 280 to 282: the artifact, the checkpoint, the line
  printed; none of the three is inside a \<^verbatim>\<open>try\<close>.
\<close>

definition persist :: "world \<Rightarrow> pystr \<Rightarrow> pystr \<Rightarrow> sys \<Rightarrow> (error + unit) \<times> sys" where
  "persist w head feedback_md s =
     (case write_feedback w feedback_md s of
        (Inl e, s1) \<Rightarrow> (Inl e, s1)
      | (Inr out, s1) \<Rightarrow>
          (case set_last_processed w head s1 of
             (Inl e, s2) \<Rightarrow> (Inl e, s2)
           | (Inr u, s2) \<Rightarrow> (Inr (), print (S ''Wrote '' @ out) s2)))"

text \<open>
  Lines 253 to 282: the summary, the prompt, the call inside \<^verbatim>\<open>try\<close> with
  \<^verbatim>\<open>except Exception\<close>, and the three last lines.
\<close>

definition generate :: "world \<Rightarrow> jvalue \<Rightarrow> pystr \<Rightarrow> changeset \<Rightarrow> sys \<Rightarrow> (error + unit) \<times> sys" where
  "generate w last' head d s =
     (let status = detect_content_status w;
          content_summary = describe_content_status status
      in case user_prompt_of last' head d content_summary of
           Inl e \<Rightarrow> (Inl e, s)
         | Inr user_prompt \<Rightarrow>
             (case call_gpt w SYSTEM_PROMPT user_prompt s of
                (Content feedback_md, s1) \<Rightarrow> persist w head feedback_md s1
              | (Raises e, s1) \<Rightarrow> persist w head (fallback_md e) s1
              | (Interrupts, s1) \<Rightarrow> (Inl KeyboardInterrupt, s1)))"

text \<open>Lines 250 to 282: what happens once \<^verbatim>\<open>last\<close> differs from \<^verbatim>\<open>head\<close>.\<close>

definition process :: "world \<Rightarrow> jvalue \<Rightarrow> pystr \<Rightarrow> sys \<Rightarrow> (error + unit) \<times> sys" where
  "process w last' head s =
     (case git_diff w last' head s of
        (Inl e, s1) \<Rightarrow> (Inl e, s1)
      | (Inr d, s1) \<Rightarrow> generate w last' head d s1)"

definition main :: "world \<Rightarrow> sys \<Rightarrow> (error + unit) \<times> sys" where
  "main w s =
     (case get_head w s of
        (Inl e, s1) \<Rightarrow> (Inl e, s1)
      | (Inr head, s1) \<Rightarrow>
          (case last_or_initial w s1 of
             (Inl e, s2) \<Rightarrow> (Inl e, s2)
           | (Inr last', s2) \<Rightarrow>
               if last' = Str head then (Inr (), print (S ''No new commits to process.'') s2)
               else process w last' head s2))"

text \<open>
  Running the script: the module-level statements, then \<^verbatim>\<open>main()\<close>. The trace starts
  empty.
\<close>

definition script :: "world \<Rightarrow> sys \<Rightarrow> (error + unit) \<times> sys" where
  "script w s =
     (case module_init w (s\<lparr>trace := []\<rparr>) of
        (Inl e, s0) \<Rightarrow> (Inl e, s0)
      | (Inr u, s0) \<Rightarrow> main w s0)"

section \<open>Effects of one invocation\<close>

text \<open>
  The writes of a trace are what the program itself created or wrote: the state
  directory, an artifact, the checkpoint.
\<close>

fun is_write :: "event \<Rightarrow> bool" where
  "is_write (MkDir d) = True"
| "is_write (WriteFile p t) = True"
| "is_write (WriteCheckpoint r) = True"
| "is_write e = False"

definition writes :: "sys \<Rightarrow> event list" where
  "writes s = filter is_write (trace s)"



fun is_request :: "event \<Rightarrow> bool" where
  "is_request (CallGpt system_prompt user_prompt) = True"
| "is_request e = False"

definition artifact_name :: "world \<Rightarrow> pystr" where
  "artifact_name w = S ''Meta-Feedback_'' @ now_stamp w @ S ''.md''"

text \<open>The command lines of the program, by name.\<close>

definition HEAD_CMD :: pystr where
  "HEAD_CMD = S ''git rev-parse HEAD''"

definition ROOT_CMD :: pystr where
  "ROOT_CMD = S ''git rev-list --max-parents=0 HEAD''"

definition name_status_cmd :: "jvalue \<Rightarrow> pystr \<Rightarrow> pystr" where
  "name_status_cmd base head = S ''git diff --name-status '' @ rendered base @ S '' '' @ head"

definition shortstat_cmd :: "jvalue \<Rightarrow> pystr \<Rightarrow> pystr" where
  "shortstat_cmd base head = S ''git diff --shortstat '' @ rendered base @ S '' '' @ head"

definition patch_cmd :: "jvalue \<Rightarrow> pystr \<Rightarrow> pystr" where
  "patch_cmd base head = S ''git diff --unified=0 '' @ rendered base @ S '' '' @ head"

definition TREE_CMD :: pystr where
  "TREE_CMD = S ''ls -R | head -n 400''"

definition LOG_CMD :: pystr where
  "LOG_CMD =
     S ''git log -n 10 --pretty=format:'' @ [39] @ S ''%h %ad %s'' @ [39] @ S '' --date=short''"

text \<open>
  The state in which \<^verbatim>\<open>main\<close> starts: the one the module-level statements leave, when
  they do not raise.
\<close>

definition loaded :: "world \<Rightarrow> sys \<Rightarrow> sys" where
  "loaded w s = snd (module_init w (s\<lparr>trace := []\<rparr>))"

text \<open>
  A command is read-only when it leaves the directory, the state file and the files as
  they are, whenever it is run. Its answer is steady when it does not depend on when the
  command is run.
\<close>

definition read_only :: "world \<Rightarrow> pystr \<Rightarrow> bool" where
  "read_only w cmd \<longleftrightarrow> (\<forall>s. snd (shell w cmd s) = on_disk s)"

definition steady :: "world \<Rightarrow> pystr \<Rightarrow> bool" where
  "steady w cmd \<longleftrightarrow> (\<forall>s s'. fst (shell w cmd s) = fst (shell w cmd s'))"

section \<open>Example runs\<close>

text \<open>
  A shell whose commands only answer, the same at any time. The answers of a repository
  with two commits, \<^verbatim>\<open>abc1234\<close> and then \<^verbatim>\<open>def5678\<close>, in which the three \<^verbatim>\<open>git diff\<close>
  commands succeed while \<^verbatim>\<open>ls\<close> and \<^verbatim>\<open>git log\<close> fail; of a repository with the single
  commit \<^verbatim>\<open>abc1234\<close>; of one whose \<^verbatim>\<open>git diff\<close> fails.
\<close>

definition answering :: "(pystr \<Rightarrow> pystr option) \<Rightarrow> pystr \<Rightarrow> sys \<Rightarrow> pystr option \<times> disk" where
  "answering f cmd s = (f cmd, on_disk s)"

definition two_commits :: "pystr \<Rightarrow> pystr option" where
  "two_commits c =
     (if c = S ''git rev-parse HEAD'' then Some (S ''def5678\<newline>'')
      else if c = S ''git rev-list --max-parents=0 HEAD'' then Some (S ''abc1234\<newline>'')
      else if take 9 c = S ''git diff '' then Some (S '' M algorithm.py'')
      else None)"

definition one_commit :: "pystr \<Rightarrow> pystr option" where
  "one_commit c =
     (if c = S ''git rev-parse HEAD'' then Some (S ''abc1234\<newline>'')
      else if c = S ''git rev-list --max-parents=0 HEAD'' then Some (S ''abc1234\<newline>'')
      else None)"

definition no_diff :: "pystr \<Rightarrow> pystr option" where
  "no_diff c =
     (if c = S ''git rev-parse HEAD'' then Some (S ''def5678\<newline>'')
      else if c = S ''git rev-list --max-parents=0 HEAD'' then Some (S ''abc1234\<newline>'')
      else None)"

text \<open>
  Worlds: no submitted file exists and nothing is refused. In the first the generation
  service answers; in \<open>failing_service\<close> it raises an exception whose message has two
  lines.
\<close>

definition working_service :: world where
  "working_service =
     \<lparr>shell = answering two_commits, read_text = (\<lambda>p. None), tests_dir = None,
      utcnow = S ''20240101_0000'',
      chat = (\<lambda>system_prompt user_prompt. Content (S ''Some feedback.\<newline>'')),
      denied = (\<lambda>p. False)\<rparr>"


definition single_commit :: world where
  "single_commit =
     \<lparr>shell = answering one_commit, read_text = (\<lambda>p. None), tests_dir = None,
      utcnow = S ''20240101_0000'',
      chat = (\<lambda>system_prompt user_prompt. Content (S ''Some feedback.\<newline>'')),
      denied = (\<lambda>p. False)\<rparr>"

definition broken_diff :: world where
  "broken_diff =
     \<lparr>shell = answering no_diff, read_text = (\<lambda>p. None), tests_dir = None,
      utcnow = S ''20240101_0000'',
      chat = (\<lambda>system_prompt user_prompt. Content (S ''Some feedback.\<newline>'')),
      denied = (\<lambda>p. False)\<rparr>"

text \<open>
  A repository whose patch from \<^verbatim>\<open>abc1234\<close> to \<^verbatim>\<open>def5678\<close> has 20500 characters, and
  submissions of a given size: a comment line and \<open>n\<close> letters of code, a heading and \<open>m\<close>
  letters of pseudocode.
\<close>

definition long_patch :: "pystr \<Rightarrow> pystr option" where
  "long_patch c =
     (if c = S ''git diff --unified=0 abc1234 def5678'' then Some (replicate 20500 43)
      else two_commits c)"

definition long_diff :: world where
  "long_diff =
     \<lparr>shell = answering long_patch, read_text = (\<lambda>p. None), tests_dir = None,
      utcnow = S ''20240101_0000'',
      chat = (\<lambda>system_prompt user_prompt. Content (S ''Some feedback.\<newline>'')),
      denied = (\<lambda>p. False)\<rparr>"

definition submission :: "nat \<Rightarrow> nat \<Rightarrow> world" where
  "submission n m =
     \<lparr>shell = answering two_commits,
      read_text = (\<lambda>p. if p = CODE_FILE then Some (S ''# sketch\<newline>'' @ replicate n 120)
                       else if p = PSEUDO_FILE then Some (S ''## Plan\<newline>'' @ replicate m 120)
                       else None),
      tests_dir = None, utcnow = S ''20240101_0000'',
      chat = (\<lambda>system_prompt user_prompt. Content (S ''Some feedback.\<newline>'')),
      denied = (\<lambda>p. False)\<rparr>"

definition no_submission :: content_status where
  "no_submission =
     \<lparr>code_len = 0, pseudo_len = 0, has_code = False, has_pseudo = False, tests_exist = True\<rparr>"

text \<open>
  States: \<open>fresh\<close> is a working directory the script has never run in; in \<open>initialised\<close>
  the state directory is there and empty; in \<open>blocked\<close> the entry \<^verbatim>\<open>state.json\<close> is a
  directory; in \<open>corrupt\<close> it is a file that does not parse.
\<close>

definition fresh :: sys where
  "fresh = \<lparr>state_dir = NoEntry, state_file = Missing, files = Map.empty, trace = []\<rparr>"

definition initialised :: sys where
  "initialised = \<lparr>state_dir = Directory, state_file = Missing, files = Map.empty, trace = []\<rparr>"


definition corrupt :: sys where
  "corrupt = \<lparr>state_dir = Directory, state_file = Malformed, files = Map.empty, trace = []\<rparr>"

text \<open>
  The changes of the two-commit repository, the events up to the end of their collection,
  and the request then sent, when nothing is submitted.
\<close>

definition two_commit_changes :: changeset where
  "two_commit_changes =
     \<lparr>name_status = S ''M algorithm.py'', shortstat = S ''M algorithm.py'',
      patch = S ''M algorithm.py'', tree = [], logs = []\<rparr>"

definition two_commit_events :: "event list" where
  "two_commit_events =
     [Shell (S ''git rev-parse HEAD''),
      Shell (S ''git rev-list --max-parents=0 HEAD''),
      Shell (S ''git diff --name-status abc1234 def5678''),
      Shell (S ''git diff --shortstat abc1234 def5678''),
      Shell (S ''git diff --unified=0 abc1234 def5678''),
      Shell (S ''ls -R | head -n 400''),
      Shell (S ''git log -n 10 --pretty=format:'' @ [39] @ S ''%h %ad %s'' @ [39] @
             S '' --date=short'')]"

definition two_commit_request :: pystr where
  "two_commit_request =
     USER_PROMPT_TEMPLATE_format (S ''abc1234'') (S ''def5678'') (S ''(none)'') (S ''(none)'')
       (S ''M algorithm.py'') (S ''M algorithm.py'')
       (S ''No substantial code or pseudocode detected. No test files found under '' @ [39] @
        S ''tests/'' @ [39] @ S ''.'')"

section \<open>Frame lemmas\<close>

lemma S_simps: "S [] = []" "S (c # cs) = of_char c # S cs"
  by (simp_all add: S_def)

lemma emit_simps [simp]:
  "trace (emit e s) = trace s @ [e]"
  "state_dir (emit e s) = state_dir s"
  "state_file (emit e s) = state_file s"
  "files (emit e s) = files s"
  "on_disk (emit e s) = on_disk s"
  by (simp_all add: emit_def on_disk_def)

lemma put_disk_simps [simp]:
  "trace (put_disk d s) = trace s"
  "state_dir (put_disk d s) = state_dir d"
  "state_file (put_disk d s) = state_file d"
  "files (put_disk d s) = files d"
  "on_disk (put_disk d s) = d"
  "put_disk (on_disk s) s = s"
  by (simp_all add: put_disk_def on_disk_def)

lemma on_disk_simps [simp]:
  "state_dir (on_disk s) = state_dir s"
  "state_file (on_disk s) = state_file s"
  "files (on_disk s) = files s"
  by (simp_all add: on_disk_def)

lemma on_disk_eqD:
  assumes "on_disk a = on_disk b"
  shows "state_dir a = state_dir b" and "state_file a = state_file b" and "files a = files b"
proof -
  have "state_dir (on_disk a) = state_dir (on_disk b)"
    "state_file (on_disk a) = state_file (on_disk b)"
    "files (on_disk a) = files (on_disk b)"
    using assms by simp_all
  then show "state_dir a = state_dir b" and "state_file a = state_file b"
    and "files a = files b"
    by simp_all
qed

lemma writes_emit [simp]: "writes (emit e s) = writes s @ (if is_write e then [e] else [])"
  by (simp add: writes_def)

lemma writes_put_disk [simp]: "writes (put_disk d s) = writes s"
  by (simp add: writes_def)

lemma writes_update [simp]:
  "writes (s\<lparr>files := f\<rparr>) = writes s"
  "writes (s\<lparr>state_file := x\<rparr>) = writes s"
  "writes (s\<lparr>state_dir := y\<rparr>) = writes s"
  by (simp_all add: writes_def)



text \<open>What a command leaves of the trace, and of the disk when it is read-only.\<close>

lemma sh_trace: "sh w c s = (r, s') \<Longrightarrow> trace s' = trace s @ [Shell c]"
  by (auto simp: sh_def split: prod.splits option.splits)

lemma sh_writes: "sh w c s = (r, s') \<Longrightarrow> writes s' = writes s"
  by (auto simp: sh_def split: prod.splits option.splits)

lemma sh_read_only: "read_only w c \<Longrightarrow> sh w c s = (r, s') \<Longrightarrow> on_disk s' = on_disk s"
  by (auto simp: sh_def read_only_def split: prod.splits option.splits dest: sndI)

lemma sh_result:
  "sh w c s = (r, s') \<Longrightarrow>
   r = (case fst (shell w c s) of None \<Rightarrow> Inl (CalledProcessError c) | Some out \<Rightarrow> Inr (strip out))"
  by (auto simp: sh_def split: prod.splits option.splits)

lemma get_head_writes: "get_head w s = (r, s') \<Longrightarrow> writes s' = writes s"
  by (simp add: get_head_def sh_writes)

lemma get_initial_commit_writes: "get_initial_commit w s = (r, s') \<Longrightarrow> writes s' = writes s"
  by (auto simp: get_initial_commit_def split: prod.splits sum.splits dest: sh_writes)

lemma last_or_initial_writes: "last_or_initial w s = (r, s') \<Longrightarrow> writes s' = writes s"
  by (auto simp: last_or_initial_def split: sum.splits if_splits prod.splits
      dest: get_initial_commit_writes)

lemma recover_writes: "recover (sh w c s) = (t, s') \<Longrightarrow> writes s' = writes s"
  by (auto simp: recover_def split: prod.splits sum.splits dest: sh_writes)

lemma git_diff_writes: "git_diff w b h s = (r, s') \<Longrightarrow> writes s' = writes s"
  by (cases "b = Str h")
     (auto simp: git_diff_def Let_def split: prod.splits sum.splits
        dest!: sh_writes recover_writes)

lemma call_gpt_writes: "call_gpt w sp up s = (r, s') \<Longrightarrow> writes s' = writes s"
  by (auto simp: call_gpt_def split: reply.splits)

lemma get_last_processed_on_disk:
  assumes "on_disk a = on_disk b"
  shows "get_last_processed a = get_last_processed b"
proof -
  have "state_dir a = state_dir b" and "state_file a = state_file b"
    using assms by (rule on_disk_eqD)+
  then show ?thesis
    by (simp add: get_last_processed_def state_file_exists_def load_last_processed_def
        split: entry.splits stored.splits)
qed

text \<open>The outcomes of the three parts of \<^verbatim>\<open>main\<close>.\<close>

lemma write_feedback_cases [consumes 1, case_names refused unencodable written]:
  assumes "write_feedback w md s = (r, s1)"
  obtains
    (refused) "r = Inl OSError" and "s1 = s"
  | (unencodable) "r = Inl UnicodeEncodeError"
      and "s1 = emit (WriteFile (artifact_name w) [])
                  (s\<lparr>files := (files s)(artifact_name w \<mapsto> [])\<rparr>)"
  | (written) "r = Inr (artifact_name w)"
      and "s1 = emit (WriteFile (artifact_name w) md)
                  (s\<lparr>files := (files s)(artifact_name w \<mapsto> md)\<rparr>)"
  using assms
  by (auto simp: write_feedback_def artifact_name_def Let_def split: if_splits)

lemma set_last_processed_cases [consumes 1, case_names fails stored]:
  assumes "set_last_processed w h s = (r, s')"
  obtains
    (fails) e where "r = Inl e" and "s' = s"
  | (stored) "r = Inr ()" and "state_dir s = Directory"
      and "s' = emit (WriteCheckpoint h)
                  (s\<lparr>state_file := Object [S ''last_processed'' \<mapsto> Str h]\<rparr>)"
  using assms
  by (cases "state_dir s"; cases "state_file s"; cases "denied w STATE_FILE")
     (auto simp: set_last_processed_def)

lemma persist_cases [consumes 1, case_names refused unencodable no_checkpoint stored]:
  assumes "persist w h md s = (r, s')"
  obtains
    (refused) "r = Inl OSError" and "s' = s"
  | (unencodable) "r = Inl UnicodeEncodeError"
      and "s' = emit (WriteFile (artifact_name w) [])
                  (s\<lparr>files := (files s)(artifact_name w \<mapsto> [])\<rparr>)"
  | (no_checkpoint) e where "r = Inl e"
      and "s' = emit (WriteFile (artifact_name w) md)
                  (s\<lparr>files := (files s)(artifact_name w \<mapsto> md)\<rparr>)"
  | (stored) "r = Inr ()" and "state_dir s = Directory"
      and "s' = print (S ''Wrote '' @ artifact_name w)
                  (emit (WriteCheckpoint h)
                     (emit (WriteFile (artifact_name w) md)
                        (s\<lparr>files := (files s)(artifact_name w \<mapsto> md)\<rparr>)
                      \<lparr>state_file := Object [S ''last_processed'' \<mapsto> Str h]\<rparr>))"
proof -
  obtain r1 s1 where wf: "write_feedback w md s = (r1, s1)"
    by (cases "write_feedback w md s")
  then show ?thesis
  proof (cases rule: write_feedback_cases)
    case refused
    with assms wf show ?thesis
      by (intro that(1)) (simp_all add: persist_def)
  next
    case unencodable
    with assms wf show ?thesis
      by (intro that(2)) (simp_all add: persist_def)
  next
    case written
    obtain r2 s2 where sl: "set_last_processed w h s1 = (r2, s2)"
      by (cases "set_last_processed w h s1")
    then show ?thesis
    proof (cases rule: set_last_processed_cases)
      case (fails e)
      with assms wf sl written show ?thesis
        by (intro that(3) [of e]) (simp_all add: persist_def)
    next
      case stored
      with assms wf sl written show ?thesis
        by (intro that(4)) (simp_all add: persist_def)
    qed
  qed
qed

lemma generate_cases [consumes 1, case_names abort persist]:
  assumes "generate w l h d s = (r, s')"
  obtains
    (abort) e where "r = Inl e" and "writes s' = writes s"
  | (persist) b md where "slice7 l = Inr b"
      and "persist w h md
             (emit (CallGpt SYSTEM_PROMPT
                      (USER_PROMPT_TEMPLATE_format b (take 7 h) (or_none (logs d))
                         (or_none (tree d)) (or_none (name_status d))
                         (if patch d \<noteq> [] then take 20000 (patch d) else S ''(none)'')
                         (describe_content_status (detect_content_status w)))) s) = (r, s')"
  using assms
  by (auto simp: generate_def user_prompt_of_def call_gpt_def Let_def
      split: sum.splits reply.splits)

lemma process_cases [consumes 1, case_names abort persist]:
  assumes "process w l h s = (r, s')"
  obtains
    (abort) e where "r = Inl e" and "writes s' = writes s"
  | (persist) md s1 where "writes s1 = writes s" and "persist w h md s1 = (r, s')"
proof -
  obtain r1 s1 where gd: "git_diff w l h s = (r1, s1)"
    by (cases "git_diff w l h s")
  then have w1: "writes s1 = writes s"
    by (rule git_diff_writes)
  show ?thesis
  proof (cases r1)
    case (Inl e)
    with assms gd w1 show ?thesis
      by (intro abort [of e]) (simp_all add: process_def)
  next
    case (Inr d)
    with assms gd have "generate w l h d s1 = (r, s')"
      by (simp add: process_def)
    then show ?thesis
    proof (cases rule: generate_cases)
      case (abort e)
      with w1 show ?thesis by (intro that(1) [of e]) simp_all
    next
      case (persist b md)
      show ?thesis
        by (rule that(2) [OF _ persist(2)]) (simp add: w1)
    qed
  qed
qed

lemma main_cases [consumes 1, case_names abort noop persist]:
  assumes "main w s = (r, s')"
  obtains
    (abort) e where "r = Inl e" and "writes s' = writes s"
  | (noop) out s1 s2 where "fst (shell w HEAD_CMD s) = Some out"
      and "get_head w s = (Inr (strip out), s1)"
      and "last_or_initial w s1 = (Inr (Str (strip out)), s2)"
      and "r = Inr ()" and "s' = print (S ''No new commits to process.'') s2"
  | (persist) out md s3 where "fst (shell w HEAD_CMD s) = Some out"
      and "writes s3 = writes s" and "persist w (strip out) md s3 = (r, s')"
proof -
  obtain r1 s1 where gh: "get_head w s = (r1, s1)"
    by (cases "get_head w s")
  then have w1: "writes s1 = writes s"
    by (rule get_head_writes)
  have r1: "r1 = (case fst (shell w HEAD_CMD s) of None \<Rightarrow> Inl (CalledProcessError HEAD_CMD)
                  | Some out \<Rightarrow> Inr (strip out))"
    using gh sh_result [of w HEAD_CMD s r1 s1] by (simp add: get_head_def HEAD_CMD_def)
  show ?thesis
  proof (cases "fst (shell w HEAD_CMD s)")
    case None
    with r1 gh assms w1 show ?thesis
      by (intro abort [of "CalledProcessError HEAD_CMD"]) (simp_all add: main_def)
  next
    case (Some out)
    with r1 have r1': "r1 = Inr (strip out)" by simp
    obtain r2 s2 where li: "last_or_initial w s1 = (r2, s2)"
      by (cases "last_or_initial w s1")
    then have w2: "writes s2 = writes s"
      using w1 by (simp add: last_or_initial_writes)
    show ?thesis
    proof (cases r2)
      case (Inl e)
      with r1' gh li assms w2 show ?thesis
        by (intro abort [of e]) (simp_all add: main_def)
    next
      case (Inr l)
      show ?thesis
      proof (cases "l = Str (strip out)")
        case True
        with Inr r1' gh li assms Some show ?thesis
          by (intro noop [of out s1 s2]) (simp_all add: main_def)
      next
        case False
        with Inr r1' gh li assms have "process w l (strip out) s2 = (r, s')"
          by (simp add: main_def)
        then show ?thesis
        proof (cases rule: process_cases)
          case (abort e)
          with w2 show ?thesis by (intro that(1) [of e]) simp_all
        next
          case (persist md s3)
          with w2 Some show ?thesis by (intro that(3) [of out s3 md]) simp_all
        qed
      qed
    qed
  qed
qed

text \<open>The module-level statement, and the script.\<close>

lemma module_init_cases [consumes 1, case_names fails there created]:
  assumes "module_init w s = (r, s0)"
  obtains
    (fails) e where "r = Inl e" and "s0 = s"
  | (there) "r = Inr ()" and "state_dir s = Directory" and "s0 = s"
  | (created) "r = Inr ()" and "state_dir s = NoEntry"
      and "s0 = emit (MkDir STATE_DIR) (s\<lparr>state_dir := Directory, state_file := Missing\<rparr>)"
  using assms by (auto simp: module_init_def split: entry.splits if_splits)

lemma script_init_fails:
  "fst (module_init w (s\<lparr>trace := []\<rparr>)) = Inl e \<Longrightarrow> script w s = (Inl e, s\<lparr>trace := []\<rparr>)"
  by (cases "module_init w (s\<lparr>trace := []\<rparr>)")
     (auto simp: script_def elim: module_init_cases)

lemma script_run:
  "fst (module_init w (s\<lparr>trace := []\<rparr>)) = Inr u \<Longrightarrow> script w s = main w (loaded w s)"
  by (cases "module_init w (s\<lparr>trace := []\<rparr>)") (simp add: script_def loaded_def)

lemma loaded_dir:
  "fst (module_init w (s\<lparr>trace := []\<rparr>)) = Inr u \<Longrightarrow> state_dir (loaded w s) = Directory"
  by (cases "module_init w (s\<lparr>trace := []\<rparr>)")
     (auto simp: loaded_def elim: module_init_cases)

lemma loaded_files: "files (loaded w s) = files s"
  by (cases "module_init w (s\<lparr>trace := []\<rparr>)")
     (auto simp: loaded_def elim: module_init_cases)

lemma loaded_writes:
  "fst (module_init w (s\<lparr>trace := []\<rparr>)) = Inr u \<Longrightarrow>
   writes (loaded w s) = (if state_dir s = NoEntry then [MkDir STATE_DIR] else [])"
  by (cases "module_init w (s\<lparr>trace := []\<rparr>)")
     (auto simp: loaded_def writes_def elim!: module_init_cases)

lemma loaded_Directory: "state_dir s = Directory \<Longrightarrow> loaded w s = s\<lparr>trace := []\<rparr>"
  by (simp add: module_init_def loaded_def)

lemma loaded_get_last_processed: "get_last_processed (loaded w s) = get_last_processed s"
  by (cases "state_dir s")
     (simp_all add: loaded_def module_init_def get_last_processed_def state_file_exists_def
        load_last_processed_def)

text \<open>Evaluation of the example runs.\<close>

lemma get_last_processed_emit [simp]: "get_last_processed (emit e s) = get_last_processed s"
  by (rule get_last_processed_on_disk) simp

lemma get_last_processed_trace [simp]:
  "get_last_processed (s\<lparr>trace := t\<rparr>) = get_last_processed s"
  by (rule get_last_processed_on_disk) (simp add: on_disk_def)

lemma sh_answering:
  "shell w = answering f \<Longrightarrow>
   sh w c s = (case f c of None \<Rightarrow> (Inl (CalledProcessError c), emit (Shell c) s)
               | Some out \<Rightarrow> (Inr (strip out), emit (Shell c) s))"
  by (simp add: sh_def answering_def split: option.splits)

lemma read_only_answering: "shell w = answering f \<Longrightarrow> read_only w c"
  by (simp add: read_only_def answering_def)

lemma steady_answering: "shell w = answering f \<Longrightarrow> steady w c"
  by (simp add: steady_def answering_def)

lemma strip_examples:
  "strip (S ''def5678\<newline>'') = S ''def5678''"
  "strip (S ''abc1234\<newline>'') = S ''abc1234''"
  "strip (S '' M algorithm.py'') = S ''M algorithm.py''"
  "strip (S ''Some feedback.\<newline>'') = S ''Some feedback.''"
  by (simp_all add: S_simps strip_def is_space_def)

lemma first_line_examples:
  "first_line (S ''abc1234'') = Inr (S ''abc1234'')"
  by (simp add: S_simps first_line_def is_linebreak_def)

lemma two_commits_answers:
  "two_commits (S ''git rev-parse HEAD'') = Some (S ''def5678\<newline>'')"
  "two_commits (S ''git rev-list --max-parents=0 HEAD'') = Some (S ''abc1234\<newline>'')"
  "two_commits (S ''git diff --name-status '' @ S ''abc1234'' @ S '' '' @ S ''def5678'') =
     Some (S '' M algorithm.py'')"
  "two_commits (S ''git diff --shortstat '' @ S ''abc1234'' @ S '' '' @ S ''def5678'') =
     Some (S '' M algorithm.py'')"
  "two_commits (S ''git diff --unified=0 '' @ S ''abc1234'' @ S '' '' @ S ''def5678'') =
     Some (S '' M algorithm.py'')"
  "two_commits (S ''ls -R | head -n 400'') = None"
  "two_commits (S ''git log -n 10 --pretty=format:'' @ [39] @ S ''%h %ad %s'' @ [39] @
                S '' --date=short'') = None"
  by (simp_all add: two_commits_def S_simps)

lemma abc_def: "S ''abc1234'' \<noteq> S ''def5678''"
  by (simp add: S_simps)

lemma two_commits_main:
  assumes "shell w = answering two_commits" and "get_last_processed s = Inr Null"
  shows "main w s =
           generate w (Str (S ''abc1234'')) (S ''def5678'') two_commit_changes
             (s\<lparr>trace := trace s @ two_commit_events\<rparr>)"
  using assms
  by (simp add: main_def get_head_def last_or_initial_def get_initial_commit_def process_def
      git_diff_def sh_answering two_commits_def S_simps strip_def is_space_def first_line_def
      is_linebreak_def recover_def two_commit_changes_def two_commit_events_def emit_def)

lemma absent_summary:
  assumes "read_text w = (\<lambda>p. None)" and "tests_dir w = None"
  shows "describe_content_status (detect_content_status w) =
           S ''No substantial code or pseudocode detected. No test files found under '' @ [39] @
           S ''tests/'' @ [39] @ S ''.''"
  using assms
  by (simp add: detect_content_status_def read_text_safe_def describe_content_status_def
      details_def S_simps)

lemma two_commits_request:
  assumes "read_text w = (\<lambda>p. None)" and "tests_dir w = None"
  shows "user_prompt_of (Str (S ''abc1234'')) (S ''def5678'') two_commit_changes
           (describe_content_status (detect_content_status w)) = Inr two_commit_request"
  using assms
  by (simp add: user_prompt_of_def absent_summary two_commit_changes_def two_commit_request_def
      or_none_def S_simps)


lemma get_last_processed_stored:
  "state_dir s = Directory \<Longrightarrow> state_file s = Object [S ''last_processed'' \<mapsto> Str h] \<Longrightarrow>
   get_last_processed s = Inr (Str h)"
  by (simp add: get_last_processed_def state_file_exists_def load_last_processed_def)

lemma loaded_fresh:
  "denied w STATE_DIR = False \<Longrightarrow>
   module_init w (fresh\<lparr>trace := []\<rparr>) =
     (Inr (), \<lparr>state_dir = Directory, state_file = Missing, files = Map.empty,
               trace = [MkDir STATE_DIR]\<rparr>)"
  by (simp add: module_init_def fresh_def emit_def)

lemma working_service_generate:
  assumes "state_dir s = Directory" and "state_file s \<noteq> IsDirectory"
  shows "generate working_service (Str (S ''abc1234'')) (S ''def5678'') two_commit_changes s =
           (Inr (),
            s\<lparr>state_file := Object [S ''last_processed'' \<mapsto> Str (S ''def5678'')],
              files := (files s)(S ''Meta-Feedback_20240101_0000.md'' \<mapsto> S ''Some feedback.''),
              trace := trace s @
                [CallGpt SYSTEM_PROMPT two_commit_request,
                 WriteFile (S ''Meta-Feedback_20240101_0000.md'') (S ''Some feedback.''),
                 WriteCheckpoint (S ''def5678''),
                 Print (S ''Wrote Meta-Feedback_20240101_0000.md'')]\<rparr>)"
proof -
  have p: "user_prompt_of (Str (S ''abc1234'')) (S ''def5678'') two_commit_changes
             (describe_content_status (detect_content_status working_service)) =
           Inr two_commit_request"
    by (rule two_commits_request) (simp_all add: working_service_def)
  have c: "call_gpt working_service SYSTEM_PROMPT two_commit_request s =
             (Content (S ''Some feedback.''), emit (CallGpt SYSTEM_PROMPT two_commit_request) s)"
    by (simp add: call_gpt_def working_service_def strip_examples)
  have f: "write_feedback working_service (S ''Some feedback.'') s1 =
             (Inr (S ''Meta-Feedback_20240101_0000.md''),
              emit (WriteFile (S ''Meta-Feedback_20240101_0000.md'') (S ''Some feedback.''))
                (s1\<lparr>files := (files s1)(S ''Meta-Feedback_20240101_0000.md'' \<mapsto>
                                           S ''Some feedback.'')\<rparr>))" for s1
    by (simp add: write_feedback_def now_stamp_def working_service_def S_simps is_surrogate_def
        Let_def)
  have d: "denied working_service STATE_FILE = False"
    by (simp add: working_service_def)
  have n: "S ''Wrote '' @ S ''Meta-Feedback_20240101_0000.md'' =
           S ''Wrote Meta-Feedback_20240101_0000.md''"
    by (simp add: S_simps)
  have "generate working_service (Str (S ''abc1234'')) (S ''def5678'') two_commit_changes s =
          persist working_service (S ''def5678'') (S ''Some feedback.'')
            (emit (CallGpt SYSTEM_PROMPT two_commit_request) s)"
    by (simp add: generate_def p c)
  also have "\<dots> = (Inr (),
            s\<lparr>state_file := Object [S ''last_processed'' \<mapsto> Str (S ''def5678'')],
              files := (files s)(S ''Meta-Feedback_20240101_0000.md'' \<mapsto> S ''Some feedback.''),
              trace := trace s @
                [CallGpt SYSTEM_PROMPT two_commit_request,
                 WriteFile (S ''Meta-Feedback_20240101_0000.md'') (S ''Some feedback.''),
                 WriteCheckpoint (S ''def5678''),
                 Print (S ''Wrote Meta-Feedback_20240101_0000.md'')]\<rparr>)"
    using assms
    by (cases "state_file s")
       (simp_all add: f d persist_def set_last_processed_def print_def emit_def n)
  finally show ?thesis .
qed

lemma working_service_run:
  "script working_service fresh =
     (Inr (),
      \<lparr>state_dir = Directory,
       state_file = Object [S ''last_processed'' \<mapsto> Str (S ''def5678'')],
       files = [S ''Meta-Feedback_20240101_0000.md'' \<mapsto> S ''Some feedback.''],
       trace = MkDir STATE_DIR # two_commit_events @
         [CallGpt SYSTEM_PROMPT two_commit_request,
          WriteFile (S ''Meta-Feedback_20240101_0000.md'') (S ''Some feedback.''),
          WriteCheckpoint (S ''def5678''),
          Print (S ''Wrote Meta-Feedback_20240101_0000.md'')]\<rparr>)"
proof -
  have "denied working_service STATE_DIR = False"
    and sh: "shell working_service = answering two_commits"
    by (simp_all add: working_service_def)
  then show ?thesis
    by (simp add: script_def loaded_fresh two_commits_main get_last_processed_def
        state_file_exists_def working_service_generate)
qed



text \<open>Head and base: what they depend on, and what asking for them leaves.\<close>

lemma get_last_processed_total: "\<exists>v. get_last_processed s = Inr v"
  by (cases "load_last_processed s") (simp_all add: get_last_processed_def)

lemma sh_fst:
  "fst (sh w c s) =
     (case fst (shell w c s) of None \<Rightarrow> Inl (CalledProcessError c) | Some out \<Rightarrow> Inr (strip out))"
  by (cases "sh w c s") (simp add: sh_result)

lemma get_head_trace: "get_head w s = (r, s') \<Longrightarrow> trace s' = trace s @ [Shell HEAD_CMD]"
  by (simp add: get_head_def HEAD_CMD_def sh_trace)

lemma get_head_read_only:
  "read_only w HEAD_CMD \<Longrightarrow> get_head w s = (r, s') \<Longrightarrow> on_disk s' = on_disk s"
  by (simp add: get_head_def HEAD_CMD_def sh_read_only)

lemma get_head_steady: "steady w HEAD_CMD \<Longrightarrow> fst (get_head w a) = fst (get_head w b)"
proof -
  assume "steady w HEAD_CMD"
  then have "fst (shell w HEAD_CMD a) = fst (shell w HEAD_CMD b)"
    by (simp add: steady_def)
  then show ?thesis
    by (simp add: get_head_def sh_fst HEAD_CMD_def)
qed

lemma get_initial_commit_trace:
  "get_initial_commit w s = (r, s') \<Longrightarrow> trace s' = trace s @ [Shell ROOT_CMD]"
  by (auto simp: get_initial_commit_def ROOT_CMD_def split: prod.splits sum.splits
      dest: sh_trace)

lemma get_initial_commit_read_only:
  "read_only w ROOT_CMD \<Longrightarrow> get_initial_commit w s = (r, s') \<Longrightarrow> on_disk s' = on_disk s"
  by (auto simp: get_initial_commit_def ROOT_CMD_def split: prod.splits sum.splits
      dest: sh_read_only)

lemma get_initial_commit_fst:
  "fst (get_initial_commit w s) =
     (case fst (shell w ROOT_CMD s) of None \<Rightarrow> Inl (CalledProcessError ROOT_CMD)
      | Some out \<Rightarrow> first_line (strip out))"
proof -
  obtain r s' where 1: "sh w ROOT_CMD s = (r, s')"
    by (cases "sh w ROOT_CMD s")
  from sh_result [OF 1] 1 show ?thesis
    by (simp add: get_initial_commit_def ROOT_CMD_def split: option.splits)
qed

lemma get_initial_commit_steady:
  "steady w ROOT_CMD \<Longrightarrow> fst (get_initial_commit w a) = fst (get_initial_commit w b)"
proof -
  assume "steady w ROOT_CMD"
  then have "fst (shell w ROOT_CMD a) = fst (shell w ROOT_CMD b)"
    by (simp add: steady_def)
  then show ?thesis
    by (simp add: get_initial_commit_fst)
qed

lemma last_or_initial_trace:
  assumes "last_or_initial w s = (r, s')"
  shows "\<exists>v. get_last_processed s = Inr v \<and>
             trace s' = trace s @ (if truthy v then [] else [Shell ROOT_CMD])"
proof -
  obtain v where v: "get_last_processed s = Inr v"
    using get_last_processed_total [of s] by blast
  have "trace s' = trace s @ (if truthy v then [] else [Shell ROOT_CMD])"
  proof (cases "truthy v")
    case True
    with assms v have "s' = s" by (simp add: last_or_initial_def)
    with True show ?thesis by simp
  next
    case False
    obtain r1 s1 where g: "get_initial_commit w s = (r1, s1)"
      by (cases "get_initial_commit w s")
    with assms v False have "s' = s1"
      by (cases r1) (simp_all add: last_or_initial_def)
    with get_initial_commit_trace [OF g] False show ?thesis by simp
  qed
  with v show ?thesis by blast
qed

lemma last_or_initial_read_only:
  assumes "read_only w ROOT_CMD" and "last_or_initial w s = (r, s')"
  shows "on_disk s' = on_disk s"
proof -
  obtain v where v: "get_last_processed s = Inr v"
    using get_last_processed_total [of s] by blast
  show ?thesis
  proof (cases "truthy v")
    case True
    with assms v have "s' = s" by (simp add: last_or_initial_def)
    then show ?thesis by simp
  next
    case False
    obtain r1 s1 where g: "get_initial_commit w s = (r1, s1)"
      by (cases "get_initial_commit w s")
    with assms v False have "s' = s1"
      by (cases r1) (simp_all add: last_or_initial_def)
    with get_initial_commit_read_only [OF assms(1) g] show ?thesis by simp
  qed
qed

lemma last_or_initial_fst:
  "fst (last_or_initial w s) =
     (case get_last_processed s of
        Inl e \<Rightarrow> Inl e
      | Inr v \<Rightarrow>
          if truthy v then Inr v
          else (case fst (get_initial_commit w s) of Inl e \<Rightarrow> Inl e | Inr root \<Rightarrow> Inr (Str root)))"
  by (cases "get_initial_commit w s")
     (simp add: last_or_initial_def split: sum.splits)

lemma last_or_initial_steady:
  assumes "steady w ROOT_CMD" and "on_disk a = on_disk b"
  shows "fst (last_or_initial w a) = fst (last_or_initial w b)"
  using get_initial_commit_steady [OF assms(1), of a b] get_last_processed_on_disk [OF assms(2)]
  by (auto simp: last_or_initial_fst split: sum.splits)

text \<open>The run that finds nothing new.\<close>

lemma noop_run:
  assumes init: "fst (module_init w (s\<lparr>trace := []\<rparr>)) = Inr ()"
    and head: "get_head w (loaded w s) = (Inr h, s1)"
    and base: "last_or_initial w s1 = (Inr (Str h), s2)"
  shows "script w s = (Inr (), print (S ''No new commits to process.'') s2)"
    and "\<exists>v. get_last_processed s1 = Inr v \<and>
             trace s2 = (if state_dir s = NoEntry then [MkDir STATE_DIR] else []) @
                        Shell HEAD_CMD # (if truthy v then [] else [Shell ROOT_CMD])"
    and "writes s2 = (if state_dir s = NoEntry then [MkDir STATE_DIR] else [])"
    and "read_only w HEAD_CMD \<Longrightarrow> read_only w ROOT_CMD \<Longrightarrow> on_disk s2 = on_disk (loaded w s)"
proof -
  show "script w s = (Inr (), print (S ''No new commits to process.'') s2)"
    using init head base by (simp add: script_run main_def)
  have t0: "trace (loaded w s) = (if state_dir s = NoEntry then [MkDir STATE_DIR] else [])"
    using init
    by (cases "module_init w (s\<lparr>trace := []\<rparr>)")
       (auto simp: loaded_def elim!: module_init_cases)
  from last_or_initial_trace [OF base] get_head_trace [OF head] t0
  show "\<exists>v. get_last_processed s1 = Inr v \<and>
             trace s2 = (if state_dir s = NoEntry then [MkDir STATE_DIR] else []) @
                        Shell HEAD_CMD # (if truthy v then [] else [Shell ROOT_CMD])"
    by auto
  show "writes s2 = (if state_dir s = NoEntry then [MkDir STATE_DIR] else [])"
    using last_or_initial_writes [OF base] get_head_writes [OF head] loaded_writes [OF init]
    by simp
  show "on_disk s2 = on_disk (loaded w s)" if "read_only w HEAD_CMD" and "read_only w ROOT_CMD"
    using last_or_initial_read_only [OF that(2) base] get_head_read_only [OF that(1) head]
    by simp
qed

lemma on_disk_loaded: "state_dir s = Directory \<Longrightarrow> on_disk (loaded w s) = on_disk s"
  by (simp add: loaded_Directory on_disk_def)

lemma second_run_noop:
  assumes ro: "read_only w HEAD_CMD" and st: "steady w HEAD_CMD" "steady w ROOT_CMD"
    and dir: "state_dir s' = Directory"
    and head: "fst (get_head w s0) = Inr h"
    and base: "fst (last_or_initial w s') = Inr (Str h)"
  shows "\<exists>s''. script w s' = (Inr (), s'') \<and>
               last (trace s'') = Print (S ''No new commits to process.'') \<and>
               (read_only w ROOT_CMD \<longrightarrow>
                  writes s'' = [] \<and> on_disk s'' = on_disk s' \<and>
                  get_last_processed s'' = get_last_processed s')"
proof -
  have init: "fst (module_init w (s'\<lparr>trace := []\<rparr>)) = Inr ()"
    using dir by (simp add: module_init_def)
  obtain r1 t1 where gh: "get_head w (loaded w s') = (r1, t1)"
    by (cases "get_head w (loaded w s')")
  then have r1: "r1 = Inr h"
    using get_head_steady [OF st(1), of "loaded w s'" s0] head by simp
  have d1: "on_disk t1 = on_disk s'"
    using get_head_read_only [OF ro gh] on_disk_loaded [OF dir] by simp
  obtain r2 t2 where li: "last_or_initial w t1 = (r2, t2)"
    by (cases "last_or_initial w t1")
  then have r2: "r2 = Inr (Str h)"
    using last_or_initial_steady [OF st(2) d1, of ] base by simp
  note run = noop_run [OF init gh [unfolded r1] li [unfolded r2]]
  let ?s = "print (S ''No new commits to process.'') t2"
  have "script w s' = (Inr (), ?s)"
    by (rule run(1))
  moreover have "last (trace ?s) = Print (S ''No new commits to process.'')"
    by (simp add: print_def)
  moreover have "writes ?s = [] \<and> on_disk ?s = on_disk s' \<and>
      get_last_processed ?s = get_last_processed s'" if "read_only w ROOT_CMD"
  proof -
    have "on_disk t2 = on_disk s'"
      using run(4) [OF ro that] on_disk_loaded [OF dir] by simp
    then have d: "on_disk ?s = on_disk s'"
      by (simp add: print_def)
    have "writes ?s = []"
      using run(3) dir by (simp add: print_def)
    with d get_last_processed_on_disk [OF d] show ?thesis
      by simp
  qed
  ultimately show ?thesis by blast
qed

text \<open>The single-commit repository.\<close>

lemma one_commit_head:
  "shell w = answering one_commit \<Longrightarrow>
   get_head w s = (Inr (S ''abc1234''), emit (Shell HEAD_CMD) s)"
  by (simp add: get_head_def sh_answering one_commit_def HEAD_CMD_def strip_examples)

lemma one_commit_base:
  "shell w = answering one_commit \<Longrightarrow> get_last_processed s = Inr Null \<Longrightarrow>
   last_or_initial w s = (Inr (Str (S ''abc1234'')), emit (Shell ROOT_CMD) s)"
  by (simp add: last_or_initial_def get_initial_commit_def sh_answering one_commit_def
      ROOT_CMD_def strip_examples first_line_examples)

lemma loaded_fresh_state:
  "denied w STATE_DIR = False \<Longrightarrow>
   loaded w fresh =
     \<lparr>state_dir = Directory, state_file = Missing, files = Map.empty,
      trace = [MkDir STATE_DIR]\<rparr>"
  by (simp add: loaded_def loaded_fresh)

lemma single_commit_run:
  "script single_commit fresh =
     (Inr (),
      \<lparr>state_dir = Directory, state_file = Missing, files = Map.empty,
       trace = [MkDir STATE_DIR, Shell HEAD_CMD, Shell ROOT_CMD,
                Print (S ''No new commits to process.'')]\<rparr>)"
proof -
  have d: "denied single_commit STATE_DIR = False"
    and sh: "shell single_commit = answering one_commit"
    by (simp_all add: single_commit_def)
  have g: "get_last_processed
             (emit (Shell HEAD_CMD)
                \<lparr>state_dir = Directory, state_file = Missing, files = Map.empty,
                 trace = [MkDir STATE_DIR]\<rparr>) = Inr Null"
    by (simp add: get_last_processed_def state_file_exists_def)
  have "script single_commit fresh =
          (Inr (), print (S ''No new commits to process.'')
                     (emit (Shell ROOT_CMD)
                        (emit (Shell HEAD_CMD)
                           \<lparr>state_dir = Directory, state_file = Missing, files = Map.empty,
                            trace = [MkDir STATE_DIR]\<rparr>)))"
    by (simp add: script_def loaded_fresh [OF d] main_def one_commit_head [OF sh]
        one_commit_base [OF sh g])
  then show ?thesis
    by (simp add: print_def emit_def)
qed

section \<open>The checkpoint\<close>




section \<open>The run that finds nothing new\<close>

text \<open>
  C2, as stated, fails. In a working directory where the script has never run, with one
  commit and no checkpoint, the root equals the head and the run prints the no-op line;
  yet it has created the directory \<^verbatim>\<open>.meta-feedback\<close>, by the module-level statement
  that runs before \<^verbatim>\<open>main\<close>.
\<close>

theorem noop_creates_state_directory:
  "get_last_processed fresh = Inr Null \<and>
   fst (get_head single_commit (loaded single_commit fresh)) = Inr (S ''abc1234'') \<and>
   fst (get_initial_commit single_commit (loaded single_commit fresh)) = Inr (S ''abc1234'') \<and>
   fst (script single_commit fresh) = Inr () \<and>
   last (trace (snd (script single_commit fresh))) = Print (S ''No new commits to process.'') \<and>
   state_dir fresh = NoEntry \<and>
   state_dir (snd (script single_commit fresh)) = Directory \<and>
   writes (snd (script single_commit fresh)) = [MkDir STATE_DIR]"
  by (simp add: single_commit_run writes_def)
     (simp add: fresh_def get_last_processed_def state_file_exists_def get_head_def
        get_initial_commit_def sh_answering single_commit_def one_commit_def strip_examples
        first_line_examples)

text \<open>
  C2, amended. Take an invocation whose module-level statement does not raise, whose head
  resolves to \<open>h\<close>, and whose checkpoint, or root when the checkpoint is absent, is \<open>h\<close> as
  well. It returns normally, and its events are exactly these: the creation of the state
  directory if there was none, the command for the head, the command for the root if the
  checkpoint was not held true, and the no-op line. So it sends no request and writes
  neither artifact nor checkpoint. When the two commands are read-only, the directory, the
  state file and the files are as the module-level statement left them: unchanged, but for
  the state directory that was created.

  A second invocation: after any invocation that returns normally with a head that is not
  empty, when the two commands are read-only and their answers steady (no new revision),
  the next invocation returns normally with the no-op line, writes nothing, and leaves
  directory, state file, files and checkpoint as they were.
\<close>

theorem noop_short_circuit:
  "(fst (module_init w (s\<lparr>trace := []\<rparr>)) = Inr () \<and>
    get_head w (loaded w s) = (Inr h, s1) \<and> last_or_initial w s1 = (Inr (Str h), s2) \<longrightarrow>
      script w s = (Inr (), print (S ''No new commits to process.'') s2) \<and>
      (\<exists>v. get_last_processed s1 = Inr v \<and>
           trace (print (S ''No new commits to process.'') s2) =
             (if state_dir s = NoEntry then [MkDir STATE_DIR] else []) @
             Shell HEAD_CMD # (if truthy v then [] else [Shell ROOT_CMD]) @
             [Print (S ''No new commits to process.'')]) \<and>
      writes (print (S ''No new commits to process.'') s2) =
        (if state_dir s = NoEntry then [MkDir STATE_DIR] else []) \<and>
      (read_only w HEAD_CMD \<and> read_only w ROOT_CMD \<longrightarrow>
         on_disk (print (S ''No new commits to process.'') s2) = on_disk (loaded w s) \<and>
         files (print (S ''No new commits to process.'') s2) = files s \<and>
         get_last_processed (print (S ''No new commits to process.'') s2) =
           get_last_processed s)) \<and>
   (script w s = (Inr (), s') \<and> fst (get_head w (loaded w s)) = Inr h \<and> h \<noteq> [] \<and>
    read_only w HEAD_CMD \<and> read_only w ROOT_CMD \<and> steady w HEAD_CMD \<and> steady w ROOT_CMD \<longrightarrow>
      (\<exists>s''. script w s' = (Inr (), s'') \<and>
             last (trace s'') = Print (S ''No new commits to process.'') \<and>
             writes s'' = [] \<and> on_disk s'' = on_disk s' \<and>
             get_last_processed s'' = get_last_processed s'))"
proof (intro conjI impI; (elim conjE)?)
  assume init: "fst (module_init w (s\<lparr>trace := []\<rparr>)) = Inr ()"
    and head: "get_head w (loaded w s) = (Inr h, s1)"
    and base: "last_or_initial w s1 = (Inr (Str h), s2)"
  note run = noop_run [OF init head base]
  show "script w s = (Inr (), print (S ''No new commits to process.'') s2)"
    by (rule run(1))
  show "\<exists>v. get_last_processed s1 = Inr v \<and>
           trace (print (S ''No new commits to process.'') s2) =
             (if state_dir s = NoEntry then [MkDir STATE_DIR] else []) @
             Shell HEAD_CMD # (if truthy v then [] else [Shell ROOT_CMD]) @
             [Print (S ''No new commits to process.'')]"
    using run(2) by (auto simp: print_def)
  show "writes (print (S ''No new commits to process.'') s2) =
          (if state_dir s = NoEntry then [MkDir STATE_DIR] else [])"
    using run(3) by (simp add: print_def)
  assume ro: "read_only w HEAD_CMD" "read_only w ROOT_CMD"
  have d: "on_disk (print (S ''No new commits to process.'') s2) = on_disk (loaded w s)"
    using run(4) [OF ro] by (simp add: print_def)
  then show "on_disk (print (S ''No new commits to process.'') s2) = on_disk (loaded w s)" .
  show "files (print (S ''No new commits to process.'') s2) = files s"
    using on_disk_eqD(3) [OF d] by (simp add: loaded_files)
  show "get_last_processed (print (S ''No new commits to process.'') s2) =
          get_last_processed s"
    using get_last_processed_on_disk [OF d] by (simp add: loaded_get_last_processed)
next
  assume run: "script w s = (Inr (), s')"
    and head: "fst (get_head w (loaded w s)) = Inr h" and h: "h \<noteq> []"
    and ro: "read_only w HEAD_CMD" "read_only w ROOT_CMD"
    and st: "steady w HEAD_CMD" "steady w ROOT_CMD"
  have init: "fst (module_init w (s\<lparr>trace := []\<rparr>)) = Inr ()"
  proof (cases "fst (module_init w (s\<lparr>trace := []\<rparr>))")
    case (Inl e)
    with run show ?thesis by (simp add: script_init_fails)
  next
    case (Inr u)
    then show ?thesis by simp
  qed
  then have m: "main w (loaded w s) = (Inr (), s')"
    using run by (simp add: script_run)
  have dir0: "state_dir (loaded w s) = Directory"
    using init by (rule loaded_dir)
  have "state_dir s' = Directory \<and> fst (last_or_initial w s') = Inr (Str h)"
    using m
  proof (cases rule: main_cases)
    case (abort e)
    then show ?thesis by simp
  next
    case (noop out s1 s2)
    from noop(2) head have out: "strip out = h" by simp
    have d1: "on_disk s1 = on_disk (loaded w s)"
      using get_head_read_only [OF ro(1) noop(2)] .
    have d2: "on_disk s2 = on_disk s1"
      using last_or_initial_read_only [OF ro(2) noop(3)] .
    have d: "on_disk s' = on_disk s1"
      using d2 noop(5) by (simp add: print_def)
    have "state_dir s' = state_dir (loaded w s)"
      using on_disk_eqD(1) [OF d] on_disk_eqD(1) [OF d1] by simp
    moreover have "fst (last_or_initial w s') = Inr (Str h)"
      using last_or_initial_steady [OF st(2) d] noop(3) out by simp
    ultimately show ?thesis using dir0 by simp
  next
    case (persist out md s3)
    from persist(1) head have out: "strip out = h"
      by (simp add: get_head_def sh_fst HEAD_CMD_def)
    from persist(3) show ?thesis
    proof (cases rule: persist_cases)
      case stored
      then have "state_dir s' = Directory"
        and "state_file s' = Object [S ''last_processed'' \<mapsto> Str h]"
        using out by (simp_all add: print_def)
      then have "state_dir s' = Directory" and "get_last_processed s' = Inr (Str h)"
        by (simp_all add: get_last_processed_stored)
      with h show ?thesis
        by (simp add: last_or_initial_fst)
    qed simp_all
  qed
  then have "\<exists>s''. script w s' = (Inr (), s'') \<and>
      last (trace s'') = Print (S ''No new commits to process.'') \<and>
      (read_only w ROOT_CMD \<longrightarrow>
         writes s'' = [] \<and> on_disk s'' = on_disk s' \<and>
         get_last_processed s'' = get_last_processed s')"
    using second_run_noop [OF ro(1) st _ head] by blast
  with ro(2) show "\<exists>s''. script w s' = (Inr (), s'') \<and>
      last (trace s'') = Print (S ''No new commits to process.'') \<and>
      writes s'' = [] \<and> on_disk s'' = on_disk s' \<and>
      get_last_processed s'' = get_last_processed s'"
    by blast
qed

theorem noop_short_circuit_witness:
  "fst (script single_commit fresh) = Inr () \<and>
   writes (snd (script single_commit fresh)) = [MkDir STATE_DIR] \<and>
   files (snd (script single_commit fresh)) = files fresh \<and>
   get_last_processed (snd (script single_commit fresh)) = get_last_processed fresh \<and>
   (\<exists>s''. script single_commit (snd (script single_commit fresh)) = (Inr (), s'') \<and>
          last (trace s'') = Print (S ''No new commits to process.'') \<and>
          writes s'' = [] \<and>
          on_disk s'' = on_disk (snd (script single_commit fresh)))"
proof -
  let ?l = "loaded single_commit fresh"
  let ?s1 = "emit (Shell HEAD_CMD) ?l"
  let ?s2 = "emit (Shell ROOT_CMD) ?s1"
  let ?s' = "snd (script single_commit fresh)"
  have sh: "shell single_commit = answering one_commit"
    and d: "denied single_commit STATE_DIR = False"
    by (simp_all add: single_commit_def)
  have init: "fst (module_init single_commit (fresh\<lparr>trace := []\<rparr>)) = Inr ()"
    by (simp add: loaded_fresh [OF d])
  have head: "get_head single_commit ?l = (Inr (S ''abc1234''), ?s1)"
    by (rule one_commit_head [OF sh])
  have g: "get_last_processed ?s1 = Inr Null"
    by (simp add: loaded_fresh_state [OF d] get_last_processed_def state_file_exists_def)
  have base: "last_or_initial single_commit ?s1 = (Inr (Str (S ''abc1234'')), ?s2)"
    by (rule one_commit_base [OF sh g])
  have ro: "read_only single_commit HEAD_CMD" "read_only single_commit ROOT_CMD"
    by (rule read_only_answering [OF sh])+
  have st: "steady single_commit HEAD_CMD" "steady single_commit ROOT_CMD"
    by (rule steady_answering [OF sh])+
  have run: "script single_commit fresh = (Inr (), ?s')"
    by (simp add: single_commit_run)
  have h: "S ''abc1234'' \<noteq> []"
    by (simp add: S_simps)
  have fh: "fst (get_head single_commit ?l) = Inr (S ''abc1234'')"
    using head by simp
  have n: "state_dir fresh = NoEntry"
    by (simp add: fresh_def)
  from noop_short_circuit [where w = single_commit and s = fresh and h = "S ''abc1234''"
      and ?s1.0 = ?s1 and ?s2.0 = ?s2 and s' = ?s']
    init head base ro st run h fh n
  show ?thesis
    by auto
qed

end
